theory Spec2Isabelle
  imports Complex_Main "HOL-Library.Char_ord" "HOL-Library.List_Lexorder" "HOL-Library.Multiset"
begin

section \<open>Numbers\<close>

text \<open>
  Python and numpy floats are modelled as real numbers: the arithmetic below is exact, and
  the rounding error of IEEE doubles is outside the model. \<open>round(x, n)\<close> rounds to the
  nearest multiple of \<open>10 ^ -n\<close>, a tie going to the even multiple.
\<close>

definition round_half_even :: "real \<Rightarrow> int" where
  "round_half_even x =
     (let f = \<lfloor>x\<rfloor>; d = x - of_int f
      in if d < 1 / 2 then f else if 1 / 2 < d then f + 1 else if even f then f else f + 1)"

definition py_round :: "real \<Rightarrow> nat \<Rightarrow> real" where
  "py_round x ndigits = of_int (round_half_even (x * 10 ^ ndigits)) / 10 ^ ndigits"

text \<open>\<open>np.clip(x, lo, hi)\<close>.\<close>

definition clip :: "real \<Rightarrow> real \<Rightarrow> real \<Rightarrow> real" where
  "clip x lo hi = min (max x lo) hi"

section \<open>The dataset\<close>

text \<open>One row of the dataset, with the columns of the CSV file.\<close>

record row =
  City :: string
  Category :: string
  Business :: string
  Investment :: real
  Demand :: real
  Competition :: real

section \<open>recommendation\_engine.py: the sub-scores\<close>

definition calculate_market_gap :: "real \<Rightarrow> real \<Rightarrow> real" where
  "calculate_market_gap demand competition =
     (let market_gap = demand - competition;
          normalized_gap = ((market_gap + 100) / 200) * 100
      in normalized_gap)"

text \<open>
  The division is only reached with \<open>user_budget < required_investment\<close>. The dataset's
  investments are positive; at \<open>required_investment = 0\<close> (and a negative budget) numpy
  yields an infinity, which is not a number of this model, and no theorem below reads the
  function there.
\<close>

definition calculate_budget_fit :: "real \<Rightarrow> real \<Rightarrow> real" where
  "calculate_budget_fit user_budget required_investment =
     (if user_budget \<ge> required_investment then 100
      else let fit_percentage = (user_budget / required_investment) * 100
           in min fit_percentage 100)"

definition calculate_interest_match :: "string list \<Rightarrow> string \<Rightarrow> real" where
  "calculate_interest_match user_interests business_category =
     (if business_category \<in> set user_interests then 100 else 0)"

definition calculate_total_score :: "row \<Rightarrow> real \<Rightarrow> string list \<Rightarrow> real" where
  "calculate_total_score r user_budget user_interests =
     (let market_gap = calculate_market_gap (Demand r) (Competition r);
          budget_fit = calculate_budget_fit user_budget (Investment r);
          interest_match = calculate_interest_match user_interests (Category r);
          total_score = (market_gap * 0.5) + (budget_fit * 0.3) + (interest_match * 0.2)
      in py_round total_score 2)"


section \<open>ml\_predictor.py\<close>

datatype error = ValueError | NotFittedError | KeyError | AttributeError | ModelError

text \<open>
  A result dictionary of the predictor and of the engine's prediction entry point. The keys
  \<open>interpretation\<close> and \<open>recommendation\<close> are only added by the engine, on a
  prediction that came from the models (here with the prefix \<open>ml_\<close>): \<open>None\<close> is an
  absent key.
\<close>

record prediction =
  demand :: real
  competition :: real
  confidence :: real
  market_gap :: real
  prediction_quality :: string
  ml_interpretation :: "string option"
  ml_recommendation :: "string option"

text \<open>
  The fourteen feature columns, in the order of \<open>feature_columns\<close>. \<open>Investment_log\<close> is
  \<open>None\<close> where \<open>np.log1p\<close> yields minus infinity, which \<open>fillna(0)\<close> keeps.
\<close>

record features =
  City_encoded :: int
  Category_encoded :: int
  Business_encoded :: int
  Investment_log :: "real option"
  Investment_scaled :: real
  City_avg_investment :: real
  City_investment_std :: real
  City_business_count :: nat
  City_avg_demand :: real
  City_avg_competition :: real
  Category_avg_investment :: real
  Category_investment_std :: real
  Category_avg_demand :: real
  Category_avg_competition :: real

text \<open>
  The predictor object. The fitted scaler and the two fitted forests are scikit-learn
  objects, taken as they are: a scaler maps a row of finite numbers to the scaled row, a
  model maps the scaled row to its output, and either may raise. \<open>None\<close> is a model that is
  not there yet and a scaler that was never fitted. \<open>label_encoders\<close> maps a column name
  to the \<open>classes_\<close> of its encoder.
\<close>

record predictor =
  demand_model :: "(real list \<Rightarrow> error + real) option"
  competition_model :: "(real list \<Rightarrow> error + real) option"
  label_encoders :: "string \<rightharpoonup> string list"
  scaler :: "(real list \<Rightarrow> error + real list) option"

text \<open>The state \<open>__init__\<close> leaves: no model, no encoder, an unfitted scaler.\<close>

definition init_predictor :: predictor where
  "init_predictor =
     \<lparr>demand_model = None, competition_model = None, label_encoders = Map.empty,
      scaler = None\<rparr>"

fun index_of :: "'a list \<Rightarrow> 'a \<Rightarrow> nat" where
  "index_of [] x = 0"
| "index_of (y # ys) x = (if x = y then 0 else Suc (index_of ys x))"

text \<open>
  One round of the loop over the three categorical columns: \<open>fit_transform\<close> on a column
  without an encoder (the classes are the sorted distinct values, the code of a value is its
  position), and the frozen classes with the code \<open>-1\<close> for a value not among them otherwise.
  The dictionary of encoders is mutated by the first branch, so it is returned.
\<close>

definition encode_column ::
  "(string \<rightharpoonup> string list) \<Rightarrow> string \<Rightarrow> string list \<Rightarrow> int list \<times> (string \<rightharpoonup> string list)" where
  "encode_column encoders col vals =
     (case encoders col of
        None \<Rightarrow>
          (let classes = sort (remdups vals)
           in (map (\<lambda>x. int (index_of classes x)) vals, encoders(col \<mapsto> classes)))
      | Some classes \<Rightarrow>
          (map (\<lambda>x. if x \<in> set classes then int (index_of classes x) else - 1) vals, encoders))"

text \<open>
  \<open>np.log1p\<close> followed by the final \<open>fillna(0)\<close>: below \<open>-1\<close> the logarithm is NaN, which
  becomes \<open>0\<close>; at \<open>-1\<close> it is minus infinity, which stays.
\<close>

definition log1p_fillna :: "real \<Rightarrow> real option" where
  "log1p_fillna x = (if - 1 < x then Some (ln (1 + x)) else if x = - 1 then None else Some 0)"

text \<open>
  The aggregates of a group: the mean, and the sample standard deviation (one degree of
  freedom removed), which is NaN on a group of one row and then replaced by \<open>fillna(0)\<close>.
  A group of \<open>groupby\<close> is never empty.
\<close>

definition mean :: "real list \<Rightarrow> real" where
  "mean xs = sum_list xs / real (length xs)"

definition std_fillna :: "real list \<Rightarrow> real" where
  "std_fillna xs =
     (if length xs < 2 then 0
      else sqrt (sum_list (map (\<lambda>x. (x - mean xs) ^ 2) xs) / real (length xs - 1)))"

text \<open>The rows of the frame whose code is \<open>c\<close>: the group that \<open>merge\<close> joins to such a row.\<close>

definition group_of :: "int list \<Rightarrow> row list \<Rightarrow> int \<Rightarrow> row list" where
  "group_of codes df c = map snd (filter (\<lambda>(c', r). c' = c) (zip codes df))"

definition prepare_features ::
  "(string \<rightharpoonup> string list) \<Rightarrow> row list \<Rightarrow> features list \<times> (string \<rightharpoonup> string list)" where
  "prepare_features encoders df =
     (let (city_encoded, encoders1) = encode_column encoders ''City'' (map City df);
          (category_encoded, encoders2) = encode_column encoders1 ''Category'' (map Category df);
          (business_encoded, encoders3) = encode_column encoders2 ''Business'' (map Business df)
      in (map (\<lambda>(r, c, k, b).
                let city_group = group_of city_encoded df c;
                    category_group = group_of category_encoded df k
                in \<lparr>City_encoded = c, Category_encoded = k, Business_encoded = b,
                    Investment_log = log1p_fillna (Investment r),
                    Investment_scaled = Investment r / 1000000,
                    City_avg_investment = mean (map Investment city_group),
                    City_investment_std = std_fillna (map Investment city_group),
                    City_business_count = length city_group,
                    City_avg_demand = mean (map Demand city_group),
                    City_avg_competition = mean (map Competition city_group),
                    Category_avg_investment = mean (map Investment category_group),
                    Category_investment_std = std_fillna (map Investment category_group),
                    Category_avg_demand = mean (map Demand category_group),
                    Category_avg_competition = mean (map Competition category_group)\<rparr>)
             (zip df (zip city_encoded (zip category_encoded business_encoded))),
          encoders3))"

text \<open>
  \<open>train_models\<close> builds the training features by \<open>prepare_features(self.df)\<close> on the
  predictor that \<open>__init__\<close> left, whose dictionary of encoders is empty.
\<close>

definition training_features :: "row list \<Rightarrow> features list \<times> (string \<rightharpoonup> string list)" where
  "training_features df = prepare_features (label_encoders init_predictor) df"

text \<open>The one-row frame that \<open>predict_single_business\<close> builds, with its two placeholders.\<close>

definition input_data :: "string \<Rightarrow> string \<Rightarrow> string \<Rightarrow> real \<Rightarrow> row list" where
  "input_data city category business investment =
     [\<lparr>City = city, Category = category, Business = business, Investment = investment,
       Demand = 0, Competition = 0\<rparr>]"

text \<open>
  A row of features as the numbers handed to the scaler, which rejects an infinity with
  a \<open>ValueError\<close>.
\<close>

definition feature_values :: "features \<Rightarrow> error + real list" where
  "feature_values f =
     (case Investment_log f of
        None \<Rightarrow> Inl ValueError
      | Some investment_log \<Rightarrow>
          Inr [of_int (City_encoded f), of_int (Category_encoded f), of_int (Business_encoded f),
               investment_log, Investment_scaled f,
               City_avg_investment f, City_investment_std f, real (City_business_count f),
               City_avg_demand f, City_avg_competition f,
               Category_avg_investment f, Category_investment_std f,
               Category_avg_demand f, Category_avg_competition f])"

definition scaler_transform :: "predictor \<Rightarrow> features \<Rightarrow> error + real list" where
  "scaler_transform self f =
     (case scaler self of
        None \<Rightarrow> Inl NotFittedError
      | Some transform \<Rightarrow>
          (case feature_values f of Inl e \<Rightarrow> Inl e | Inr xs \<Rightarrow> transform xs))"

text \<open>
  The argument \<open>features\<close> is not read. \<open>jitter\<close> is the sample that
  \<open>np.random.normal(0, 0.1)\<close> returns.
\<close>

definition calculate_confidence :: "real list \<Rightarrow> real \<Rightarrow> real" where
  "calculate_confidence features jitter =
     (let base_confidence = 0.85 in min (base_confidence + jitter) 1.0)"

definition fallback_predictions :: "(string \<times> real \<times> real) list" where
  "fallback_predictions =
     [(''Food'', 75, 65),
      (''Tech'', 80, 55),
      (''Healthcare'', 85, 45),
      (''Education'', 70, 60),
      (''Fitness'', 72, 50),
      (''Tourism'', 68, 55),
      (''Retail'', 65, 70)]"

definition get_fallback_prediction :: "string \<Rightarrow> prediction" where
  "get_fallback_prediction category =
     (let pred = (case map_of fallback_predictions category of
                    Some p \<Rightarrow> p | None \<Rightarrow> (70, 60))
      in \<lparr>demand = fst pred, competition = snd pred, confidence = 0.6,
          market_gap = fst pred - snd pred, prediction_quality = ''Medium'',
          ml_interpretation = None, ml_recommendation = None\<rparr>)"

text \<open>
  The body of the \<open>try\<close> block after the features are built. Calling \<open>predict\<close> on a
  model that is \<open>None\<close> raises an \<open>AttributeError\<close>; after the guard of
  \<open>predict_single_business\<close> this is not reached.
\<close>

definition predict_scaled :: "predictor \<Rightarrow> real \<Rightarrow> features \<Rightarrow> error + prediction" where
  "predict_scaled self jitter f =
     (case scaler_transform self f of
        Inl e \<Rightarrow> Inl e
      | Inr features_scaled \<Rightarrow>
          (case demand_model self of
             None \<Rightarrow> Inl AttributeError
           | Some dm \<Rightarrow>
               (case dm features_scaled of
                  Inl e \<Rightarrow> Inl e
                | Inr demand_raw \<Rightarrow>
                    (case competition_model self of
                       None \<Rightarrow> Inl AttributeError
                     | Some cm \<Rightarrow>
                         (case cm features_scaled of
                            Inl e \<Rightarrow> Inl e
                          | Inr competition_raw \<Rightarrow>
                              (let demand_pred = clip demand_raw 50 100;
                                   competition_pred = clip competition_raw 20 80;
                                   confidence = calculate_confidence features_scaled jitter
                               in Inr \<lparr>demand = py_round demand_pred 1,
                                       competition = py_round competition_pred 1,
                                       confidence = py_round confidence 2,
                                       market_gap = py_round (demand_pred - competition_pred) 1,
                                       prediction_quality =
                                         (if confidence > 0.8 then ''High''
                                          else if confidence > 0.6 then ''Medium'' else ''Low''),
                                       ml_interpretation = None, ml_recommendation = None\<rparr>))))))"

text \<open>
  The guard raises before the \<open>try\<close> block; every exception of the block is caught and
  answered by the fallback table. \<open>prepare_features\<close> may have added encoders to the
  predictor by then, so the predictor is returned with the result.
\<close>

definition predict_single_business ::
  "predictor \<Rightarrow> real \<Rightarrow> string \<Rightarrow> string \<Rightarrow> string \<Rightarrow> real \<Rightarrow> error + (prediction \<times> predictor)" where
  "predict_single_business self jitter city category business investment =
     (if demand_model self = None \<or> competition_model self = None then Inl ValueError
      else
        let (features, encoders) =
              prepare_features (label_encoders self) (input_data city category business investment);
            self' = self\<lparr>label_encoders := encoders\<rparr>
        in (case predict_scaled self' jitter (hd features) of
              Inr result \<Rightarrow> Inr (result, self')
            | Inl e \<Rightarrow> Inr (get_fallback_prediction category, self')))"

section \<open>recommendation\_engine.py: the engine\<close>

text \<open>
  The engine's data frame is an object that the engine refers to, and
  \<open>get_recommendations\<close> adds columns to a frame. Frames therefore live in a store, a frame
  holds its rows and the two columns that may be added, and the engine holds the address of
  its dataset. A new frame is put at the first free address.
\<close>

type_synonym addr = nat

record frame =
  rows :: "row list"
  score_col :: "real list option"
  explanation_col :: "string list option"

type_synonym heap = "frame list"

record engine =
  df :: addr
  use_ml :: bool
  ml_predictor :: "predictor option"

definition new_frame :: "heap \<Rightarrow> frame \<Rightarrow> addr \<times> heap" where
  "new_frame h f = (length h, h @ [f])"

text \<open>The frame of the rows at the given positions, in that order (\<open>take\<close> of pandas).\<close>

definition take_rows :: "nat list \<Rightarrow> frame \<Rightarrow> frame" where
  "take_rows idx f =
     \<lparr>rows = map (\<lambda>i. rows f ! i) idx,
      score_col = map_option (\<lambda>c. map (\<lambda>i. c ! i) idx) (score_col f),
      explanation_col = map_option (\<lambda>c. map (\<lambda>i. c ! i) idx) (explanation_col f)\<rparr>"

text \<open>Boolean indexing \<open>df[mask]\<close>: a new frame of the rows that satisfy the mask.\<close>

definition select_rows :: "(row \<Rightarrow> bool) \<Rightarrow> frame \<Rightarrow> frame" where
  "select_rows p f = take_rows (filter (\<lambda>i. p (rows f ! i)) [0..<length (rows f)]) f"

definition set_score :: "heap \<Rightarrow> addr \<Rightarrow> real list \<Rightarrow> heap" where
  "set_score h a col = h[a := (h ! a)\<lparr>score_col := Some col\<rparr>]"

definition set_explanation :: "heap \<Rightarrow> addr \<Rightarrow> string list \<Rightarrow> heap" where
  "set_explanation h a col = h[a := (h ! a)\<lparr>explanation_col := Some col\<rparr>]"

text \<open>
  \<open>nlargest(n, 'score')\<close>: the first \<open>n\<close> rows in descending order of the score, rows of
  equal score in their order in the frame; nothing for \<open>n \<le> 0\<close>. A frame without the column
  raises.
\<close>

definition nlargest :: "int \<Rightarrow> frame \<Rightarrow> error + frame" where
  "nlargest n f =
     (case score_col f of
        None \<Rightarrow> Inl KeyError
      | Some sc \<Rightarrow>
          Inr (take_rows (take (nat n) (sort_key (\<lambda>i. - (sc ! i)) [0..<length (rows f)])) f))"

text \<open>\<open>" | ".join(explanations)\<close>.\<close>

fun join :: "string \<Rightarrow> string list \<Rightarrow> string" where
  "join sep [] = []"
| "join sep [x] = x"
| "join sep (x # y # ys) = x @ sep @ join sep (y # ys)"

text \<open>
  The texts of the source start with a pictograph and a blank, which are left out here.
\<close>

definition get_score_explanation :: "row \<Rightarrow> real \<Rightarrow> string list \<Rightarrow> string" where
  "get_score_explanation r user_budget user_interests =
     (let market_gap = calculate_market_gap (Demand r) (Competition r);
          budget_fit = calculate_budget_fit user_budget (Investment r);
          interest_match = calculate_interest_match user_interests (Category r);
          explanations =
            [if market_gap \<ge> 70 then ''High market opportunity (low competition, high demand)''
             else if market_gap \<ge> 50 then ''Good market potential''
             else ''Competitive market'',
             if budget_fit = 100 then ''Perfect budget fit''
             else if budget_fit \<ge> 80 then ''Good budget alignment''
             else if budget_fit \<ge> 50 then ''Moderate budget requirement''
             else ''High investment needed'',
             if interest_match = 100 then ''Matches your interests''
             else ''Outside your preferred categories'']
      in join '' | '' explanations)"

text \<open>
  One dictionary of the result of \<open>get_recommendations\<close>. Its keys carry the prefix
  \<open>rec_\<close> here (\<open>investment_required\<close> is \<open>rec_investment_required\<close>, and so on).
\<close>

record business_rec =
  rec_business_name :: string
  rec_category :: string
  rec_investment_required :: real
  rec_demand :: real
  rec_competition :: real
  rec_score :: real
  rec_explanation :: string
  rec_market_gap :: real
  rec_budget_fit :: real
  rec_interest_match :: real

definition recommendation_of :: "real \<Rightarrow> string list \<Rightarrow> row \<Rightarrow> real \<Rightarrow> string \<Rightarrow> business_rec" where
  "recommendation_of budget interests r row_score row_explanation =
     \<lparr>rec_business_name = Business r,
      rec_category = Category r,
      rec_investment_required = Investment r,
      rec_demand = Demand r,
      rec_competition = Competition r,
      rec_score = row_score,
      rec_explanation = row_explanation,
      rec_market_gap = calculate_market_gap (Demand r) (Competition r),
      rec_budget_fit = calculate_budget_fit budget (Investment r),
      rec_interest_match = calculate_interest_match interests (Category r)\<rparr>"

text \<open>The loop over \<open>iterrows()\<close>, which reads the two added columns of every row.\<close>

definition recommendations_of_frame :: "real \<Rightarrow> string list \<Rightarrow> frame \<Rightarrow> error + business_rec list" where
  "recommendations_of_frame budget interests f =
     (case score_col f of
        None \<Rightarrow> Inl KeyError
      | Some sc \<Rightarrow>
          (case explanation_col f of
             None \<Rightarrow> Inl KeyError
           | Some ex \<Rightarrow>
               Inr (map (\<lambda>(r, s, e). recommendation_of budget interests r s e)
                      (zip (rows f) (zip sc ex)))))"

text \<open>
  The filtered copy is a new frame of the store, and the two columns are added to it. The
  function returns the store it leaves.
\<close>

definition get_recommendations ::
  "engine \<Rightarrow> heap \<Rightarrow> string \<Rightarrow> real \<Rightarrow> string list \<Rightarrow> int \<Rightarrow> (error + business_rec list) \<times> heap" where
  "get_recommendations self h city budget interests top_n =
     (let (city_businesses, h1) = new_frame h (select_rows (\<lambda>r. City r = city) (h ! df self))
      in if rows (h1 ! city_businesses) = [] then (Inr [], h1)
         else
           let h2 = set_score h1 city_businesses
                      (map (\<lambda>r. calculate_total_score r budget interests)
                         (rows (h1 ! city_businesses)));
               h3 = set_explanation h2 city_businesses
                      (map (\<lambda>r. get_score_explanation r budget interests)
                         (rows (h2 ! city_businesses)))
           in (case nlargest top_n (h3 ! city_businesses) of
                 Inl e \<Rightarrow> (Inl e, h3)
               | Inr top_businesses \<Rightarrow>
                   (recommendations_of_frame budget interests top_businesses, h3)))"

definition get_basic_prediction :: "engine \<Rightarrow> heap \<Rightarrow> string \<Rightarrow> string \<Rightarrow> prediction" where
  "get_basic_prediction self h city category =
     (let city_data = filter (\<lambda>r. City r = city \<and> Category r = category) (rows (h ! df self));
          (avg_demand, avg_competition) =
            (if city_data = [] then
               let category_data = filter (\<lambda>r. Category r = category) (rows (h ! df self))
               in (if category_data \<noteq> [] then mean (map Demand category_data) else 70,
                   if category_data \<noteq> [] then mean (map Competition category_data) else 50)
             else (mean (map Demand city_data), mean (map Competition city_data)))
      in \<lparr>demand = py_round avg_demand 1,
          competition = py_round avg_competition 1,
          confidence = 0.7,
          market_gap = py_round (avg_demand - avg_competition) 1,
          prediction_quality = ''Basic'',
          ml_interpretation = None, ml_recommendation = None\<rparr>)"

definition interpret_ml_prediction :: "prediction \<Rightarrow> string" where
  "interpret_ml_prediction p =
     (if market_gap p > 20 \<and> confidence p > 0.8 then ''Excellent opportunity with high confidence''
      else if market_gap p > 15 \<and> confidence p > 0.7 then ''Good opportunity with solid predictions''
      else if market_gap p > 5 then ''Moderate opportunity, consider market research''
      else ''Challenging market, high competition expected'')"

definition get_business_recommendation :: "prediction \<Rightarrow> string" where
  "get_business_recommendation p =
     (if demand p > 80 \<and> competition p < 40 then ''Highly recommended - High demand, low competition''
      else if demand p > 70 \<and> competition p < 60 then ''Recommended - Good market potential''
      else if confidence p < 0.6 then ''Needs more research - Low prediction confidence''
      else ''Proceed with caution - Competitive market'')"

text \<open>
  Without a usable predictor (\<open>not self.use_ml or self.ml_predictor is None\<close>), and when
  the predictor raises, the answer is the basic prediction. The call may change the
  predictor, so the engine is returned with the result.
\<close>

definition predict_new_business_opportunity ::
  "engine \<Rightarrow> heap \<Rightarrow> real \<Rightarrow> string \<Rightarrow> string \<Rightarrow> string \<Rightarrow> real \<Rightarrow> prediction \<times> engine" where
  "predict_new_business_opportunity self h jitter city category business_name investment =
     (case ml_predictor self of
        None \<Rightarrow> (get_basic_prediction self h city category, self)
      | Some p \<Rightarrow>
          if \<not> use_ml self then (get_basic_prediction self h city category, self)
          else
            (case predict_single_business p jitter city category business_name investment of
               Inr (pred, p') \<Rightarrow>
                 (pred\<lparr>ml_interpretation := Some (interpret_ml_prediction pred),
                       ml_recommendation := Some (get_business_recommendation pred)\<rparr>,
                  self\<lparr>ml_predictor := Some p'\<rparr>)
             | Inl e \<Rightarrow> (get_basic_prediction self h city category, self)))"

section \<open>Example data\<close>

text \<open>
  A dataset of four rows, a store that holds it, an engine without a predictor, and a
  predictor whose encoders were fitted on the dataset, whose scaler leaves a row as it is and
  whose two models are constant.
\<close>

definition example_dataset :: "row list" where
  "example_dataset =
     [\<lparr>City = ''Mumbai'', Category = ''Food'', Business = ''Cafe'', Investment = 100,
       Demand = 70, Competition = 40\<rparr>,
      \<lparr>City = ''Mumbai'', Category = ''Food'', Business = ''Bakery'', Investment = 200,
       Demand = 71, Competition = 40\<rparr>,
      \<lparr>City = ''Mumbai'', Category = ''Food'', Business = ''Diner'', Investment = 300,
       Demand = 71, Competition = 41\<rparr>,
      \<lparr>City = ''Delhi'', Category = ''Tech'', Business = ''App'', Investment = 500,
       Demand = 90, Competition = 30\<rparr>]"

definition example_heap :: heap where
  "example_heap = [\<lparr>rows = example_dataset, score_col = None, explanation_col = None\<rparr>]"

definition example_engine :: engine where
  "example_engine = \<lparr>df = 0, use_ml = False, ml_predictor = None\<rparr>"

definition example_predictor :: predictor where
  "example_predictor =
     \<lparr>demand_model = Some (\<lambda>xs. Inr 60.06),
      competition_model = Some (\<lambda>xs. Inr 30.04),
      label_encoders = snd (training_features example_dataset),
      scaler = Some (\<lambda>xs. Inr xs)\<rparr>"

section \<open>Notions of the proofs\<close>

text \<open>
  The copy of a frame with its two added columns, the dictionary built for a row, and the
  positions that \<open>nlargest\<close> selects among the rows \<open>m\<close>.
\<close>

definition scored_frame :: "frame \<Rightarrow> real \<Rightarrow> string list \<Rightarrow> frame" where
  "scored_frame f budget interests =
     f\<lparr>score_col := Some (map (\<lambda>r. calculate_total_score r budget interests) (rows f)),
       explanation_col := Some (map (\<lambda>r. get_score_explanation r budget interests) (rows f))\<rparr>"

definition full_rec :: "real \<Rightarrow> string list \<Rightarrow> row \<Rightarrow> business_rec" where
  "full_rec budget interests r =
     recommendation_of budget interests r (calculate_total_score r budget interests)
       (get_score_explanation r budget interests)"

definition top_indices :: "int \<Rightarrow> real \<Rightarrow> string list \<Rightarrow> row list \<Rightarrow> nat list" where
  "top_indices top_n budget interests m =
     take (nat top_n)
       (sort_key (\<lambda>i. - (map (\<lambda>r. calculate_total_score r budget interests) m ! i))
          [0..<length m])"

section \<open>Rounding keeps grid bounds\<close>

lemma round_half_even_cases:
  "round_half_even x = \<lfloor>x\<rfloor> \<or> (round_half_even x = \<lfloor>x\<rfloor> + 1 \<and> 1 / 2 \<le> x - of_int \<lfloor>x\<rfloor>)"
  by (simp add: round_half_even_def Let_def)

lemma round_half_even_ge:
  assumes "of_int k \<le> x"
  shows "k \<le> round_half_even x"
proof -
  from assms have "k \<le> \<lfloor>x\<rfloor>" by (simp add: le_floor_iff)
  with round_half_even_cases [of x] show ?thesis by auto
qed

lemma round_half_even_le:
  assumes "x \<le> of_int k"
  shows "round_half_even x \<le> k"
proof -
  from assms have fl: "\<lfloor>x\<rfloor> \<le> k" by (simp add: floor_le_iff)
  from round_half_even_cases [of x] show ?thesis
  proof
    assume "round_half_even x = \<lfloor>x\<rfloor>"
    with fl show ?thesis by simp
  next
    assume h: "round_half_even x = \<lfloor>x\<rfloor> + 1 \<and> 1 / 2 \<le> x - of_int \<lfloor>x\<rfloor>"
    then have "of_int \<lfloor>x\<rfloor> < x" by linarith
    with assms have "of_int \<lfloor>x\<rfloor> < (of_int k :: real)" by linarith
    then have "\<lfloor>x\<rfloor> < k" by simp
    with h show ?thesis by simp
  qed
qed

lemma round_half_even_of_int [simp]: "round_half_even (of_int k) = k"
  by (simp add: round_half_even_def)

lemma py_round_ge:
  assumes "of_int k / 10 ^ n \<le> x"
  shows "of_int k / 10 ^ n \<le> py_round x n"
proof -
  from assms have "of_int k \<le> x * 10 ^ n" by (simp add: field_simps)
  then have "k \<le> round_half_even (x * 10 ^ n)" by (rule round_half_even_ge)
  then have "(of_int k :: real) \<le> of_int (round_half_even (x * 10 ^ n))" by simp
  then show ?thesis by (simp add: py_round_def divide_right_mono)
qed

lemma py_round_le:
  assumes "x \<le> of_int k / 10 ^ n"
  shows "py_round x n \<le> of_int k / 10 ^ n"
proof -
  from assms have "x * 10 ^ n \<le> of_int k" by (simp add: field_simps)
  then have "round_half_even (x * 10 ^ n) \<le> k" by (rule round_half_even_le)
  then have "(of_int (round_half_even (x * 10 ^ n)) :: real) \<le> of_int k" by simp
  then show ?thesis by (simp add: py_round_def divide_right_mono)
qed

section \<open>The sub-scores of the engine\<close>

lemma market_gap_formula: "calculate_market_gap d c = (d - c + 100) / 2"
  by (simp add: calculate_market_gap_def)

lemma budget_fit_range:
  assumes "0 < user_budget" "0 < required_investment"
  shows "0 < calculate_budget_fit user_budget required_investment"
    and "calculate_budget_fit user_budget required_investment \<le> 100"
  using assms by (simp_all add: calculate_budget_fit_def Let_def)

lemma interest_match_values:
  "calculate_interest_match interests c = 0 \<or> calculate_interest_match interests c = 100"
  by (simp add: calculate_interest_match_def)

text \<open>
  Claim C5. For demand \<open>d\<close> and competition \<open>c\<close> in \<open>[0, 100]\<close> the market gap is
  \<open>((d - c) + 100) / 200 * 100\<close>, lies in \<open>[0, 100]\<close>, increases with the demand and
  decreases with the competition (strictly, and so also weakly), and the gap of \<open>(d, c)\<close>
  and the gap of \<open>(c, d)\<close> add up to \<open>100\<close>.
\<close>

theorem market_gap_properties:
  assumes "0 \<le> d" "d \<le> 100" "0 \<le> c" "c \<le> 100"
    and "0 \<le> d'" "d' \<le> 100" "0 \<le> c'" "c' \<le> 100"
  shows "calculate_market_gap d c = ((d - c) + 100) / 200 * 100
       \<and> 0 \<le> calculate_market_gap d c \<and> calculate_market_gap d c \<le> 100
       \<and> (d \<le> d' \<longrightarrow> calculate_market_gap d c \<le> calculate_market_gap d' c)
       \<and> (d < d' \<longrightarrow> calculate_market_gap d c < calculate_market_gap d' c)
       \<and> (c \<le> c' \<longrightarrow> calculate_market_gap d c' \<le> calculate_market_gap d c)
       \<and> (c < c' \<longrightarrow> calculate_market_gap d c' < calculate_market_gap d c)
       \<and> calculate_market_gap d c + calculate_market_gap c d = 100"
proof -
  have "calculate_market_gap d c + calculate_market_gap c d = 100"
    by (simp add: market_gap_formula field_simps)
  with assms show ?thesis by (simp add: market_gap_formula)
qed

theorem market_gap_properties_witness:
  "calculate_market_gap 80 40 = 70
   \<and> calculate_market_gap 80 40 < calculate_market_gap 90 40
   \<and> calculate_market_gap 80 50 < calculate_market_gap 80 40
   \<and> calculate_market_gap 80 40 + calculate_market_gap 40 80 = 100"
proof -
  have h: "(0::real) \<le> 80" "(80::real) \<le> 100" "(0::real) \<le> 40" "(40::real) \<le> 100"
    "(0::real) \<le> 90" "(90::real) \<le> 100" "(0::real) \<le> 50" "(50::real) \<le> 100"
    by simp_all
  from market_gap_properties [OF h] show ?thesis by simp
qed

text \<open>
  Claim C4. The total score is \<open>0.5 * marketGap + 0.3 * budgetFit + 0.2 * interestMatch\<close>
  rounded to two decimal places. For a record with demand and competition in \<open>[0, 100]\<close>,
  a positive budget and a positive investment it lies in \<open>[0, 100]\<close>. Sub-scores
  \<open>0, 0, 100\<close> give \<open>20\<close>, and sub-scores \<open>100, 100, 0\<close> give \<open>80\<close>.
\<close>

theorem total_score_properties:
  "calculate_total_score r budget interests =
     py_round (0.5 * calculate_market_gap (Demand r) (Competition r)
               + 0.3 * calculate_budget_fit budget (Investment r)
               + 0.2 * calculate_interest_match interests (Category r)) 2
   \<and> (0 \<le> Demand r \<and> Demand r \<le> 100 \<and> 0 \<le> Competition r \<and> Competition r \<le> 100
        \<and> 0 < budget \<and> 0 < Investment r
      \<longrightarrow> 0 \<le> calculate_total_score r budget interests
          \<and> calculate_total_score r budget interests \<le> 100)
   \<and> (calculate_market_gap (Demand r) (Competition r) = 0
        \<and> calculate_budget_fit budget (Investment r) = 0
        \<and> calculate_interest_match interests (Category r) = 100
      \<longrightarrow> calculate_total_score r budget interests = 20)
   \<and> (calculate_market_gap (Demand r) (Competition r) = 100
        \<and> calculate_budget_fit budget (Investment r) = 100
        \<and> calculate_interest_match interests (Category r) = 0
      \<longrightarrow> calculate_total_score r budget interests = 80)"
proof (intro conjI impI)
  show "calculate_total_score r budget interests =
     py_round (0.5 * calculate_market_gap (Demand r) (Competition r)
               + 0.3 * calculate_budget_fit budget (Investment r)
               + 0.2 * calculate_interest_match interests (Category r)) 2"
    by (simp add: calculate_total_score_def Let_def mult.commute)
next
  assume a: "0 \<le> Demand r \<and> Demand r \<le> 100 \<and> 0 \<le> Competition r \<and> Competition r \<le> 100
        \<and> 0 < budget \<and> 0 < Investment r"
  let ?mg = "calculate_market_gap (Demand r) (Competition r)"
  let ?bf = "calculate_budget_fit budget (Investment r)"
  let ?im = "calculate_interest_match interests (Category r)"
  let ?t = "?mg * 0.5 + ?bf * 0.3 + ?im * 0.2"
  from a have mg: "0 \<le> ?mg" "?mg \<le> 100" by (simp_all add: market_gap_formula)
  from a have bf: "0 < ?bf" "?bf \<le> 100" by (simp_all add: budget_fit_range)
  from interest_match_values [of interests "Category r"] have im: "0 \<le> ?im" "?im \<le> 100"
    by auto
  from mg bf im have lo: "of_int 0 / 10 ^ 2 \<le> ?t" by simp
  from mg bf im have hi: "?t \<le> of_int 10000 / 10 ^ 2" by simp
  from py_round_ge [OF lo] show "0 \<le> calculate_total_score r budget interests"
    by (simp add: calculate_total_score_def Let_def)
  from py_round_le [OF hi] show "calculate_total_score r budget interests \<le> 100"
    by (simp add: calculate_total_score_def Let_def)
next
  assume "calculate_market_gap (Demand r) (Competition r) = 0
        \<and> calculate_budget_fit budget (Investment r) = 0
        \<and> calculate_interest_match interests (Category r) = 100"
  then show "calculate_total_score r budget interests = 20"
    by (simp add: calculate_total_score_def Let_def py_round_def round_half_even_def)
next
  assume "calculate_market_gap (Demand r) (Competition r) = 100
        \<and> calculate_budget_fit budget (Investment r) = 100
        \<and> calculate_interest_match interests (Category r) = 0"
  then show "calculate_total_score r budget interests = 80"
    by (simp add: calculate_total_score_def Let_def py_round_def round_half_even_def)
qed

theorem total_score_properties_witness:
  "0 \<le> calculate_total_score
          \<lparr>City = ''Mumbai'', Category = ''Food'', Business = ''Cafe'', Investment = 100,
           Demand = 80, Competition = 40\<rparr> 50 [''Food'']
   \<and> calculate_total_score
          \<lparr>City = ''Mumbai'', Category = ''Food'', Business = ''Cafe'', Investment = 100,
           Demand = 80, Competition = 40\<rparr> 50 [''Food''] \<le> 100
   \<and> calculate_total_score
          \<lparr>City = ''Mumbai'', Category = ''Food'', Business = ''Cafe'', Investment = 1,
           Demand = 0, Competition = 100\<rparr> 0 [''Food''] = 20
   \<and> calculate_total_score
          \<lparr>City = ''Mumbai'', Category = ''Food'', Business = ''Cafe'', Investment = 100,
           Demand = 100, Competition = 0\<rparr> 100 [''Tech''] = 80"
  using
    total_score_properties
      [of "\<lparr>City = ''Mumbai'', Category = ''Food'', Business = ''Cafe'', Investment = 100,
             Demand = 80, Competition = 40\<rparr>" 50 "[''Food'']"]
    total_score_properties
      [of "\<lparr>City = ''Mumbai'', Category = ''Food'', Business = ''Cafe'', Investment = 1,
             Demand = 0, Competition = 100\<rparr>" 0 "[''Food'']"]
    total_score_properties
      [of "\<lparr>City = ''Mumbai'', Category = ''Food'', Business = ''Cafe'', Investment = 100,
             Demand = 100, Competition = 0\<rparr>" 100 "[''Tech'']"]
  by (simp add: calculate_market_gap_def calculate_budget_fit_def calculate_interest_match_def)

section \<open>Rounding and clipping of the predictions\<close>

lemma round_half_even_error: "\<bar>of_int (round_half_even x) - x\<bar> \<le> 1 / 2"
proof -
  have "of_int \<lfloor>x\<rfloor> \<le> x" "x < of_int \<lfloor>x\<rfloor> + 1" by linarith+
  then show ?thesis
    by (auto simp add: round_half_even_def Let_def)
qed

lemma py_round_difference:
  "\<bar>py_round (a - b) 1 - (py_round a 1 - py_round b 1)\<bar> \<le> 1 / 10"
proof -
  let ?A = "round_half_even (a * 10)"
  let ?B = "round_half_even (b * 10)"
  let ?C = "round_half_even ((a - b) * 10)"
  have ea: "\<bar>of_int ?A - a * 10\<bar> \<le> 1 / 2" by (rule round_half_even_error)
  have eb: "\<bar>of_int ?B - b * 10\<bar> \<le> 1 / 2" by (rule round_half_even_error)
  have ec: "\<bar>of_int ?C - (a - b) * 10\<bar> \<le> 1 / 2" by (rule round_half_even_error)
  have "(of_int (?C - (?A - ?B)) :: real)
      = (of_int ?C - (a - b) * 10) - (of_int ?A - a * 10) + (of_int ?B - b * 10)"
    by (simp add: algebra_simps)
  with ea eb ec have "\<bar>(of_int (?C - (?A - ?B)) :: real)\<bar> \<le> 3 / 2"
    by (simp only: abs_le_iff) linarith
  then have "\<bar>(of_int (?C - (?A - ?B)) :: real)\<bar> < of_int 2" by simp
  then have "\<bar>?C - (?A - ?B)\<bar> < 2" unfolding of_int_abs [symmetric] of_int_less_iff .
  then have "\<bar>?C - (?A - ?B)\<bar> \<le> 1" by simp
  then have "\<bar>(of_int (?C - (?A - ?B)) :: real)\<bar> \<le> 1"
    unfolding of_int_abs [symmetric] by (metis of_int_le_iff of_int_1)
  then show ?thesis by (simp add: py_round_def field_simps)
qed

lemma py_round_int_bounds:
  assumes "of_int a \<le> x" "x \<le> of_int b"
  shows "of_int a \<le> py_round x n \<and> py_round x n \<le> of_int b"
proof -
  have a: "(of_int a :: real) = of_int (a * 10 ^ n) / 10 ^ n" by simp
  have b: "(of_int b :: real) = of_int (b * 10 ^ n) / 10 ^ n" by simp
  from assms(1) have "of_int (a * 10 ^ n) / 10 ^ n \<le> py_round x n"
    by (intro py_round_ge) (simp only: a [symmetric])
  moreover from assms(2) have "py_round x n \<le> of_int (b * 10 ^ n) / 10 ^ n"
    by (intro py_round_le) (simp only: b [symmetric])
  ultimately show ?thesis by (simp only: a [symmetric] b [symmetric])
qed

lemma clip_bounds: "lo \<le> hi \<Longrightarrow> lo \<le> clip x lo hi \<and> clip x lo hi \<le> hi"
  by (simp add: clip_def)

lemma py_round_clip_demand:
  "50 \<le> py_round (clip x 50 100) 1 \<and> py_round (clip x 50 100) 1 \<le> 100"
  using py_round_int_bounds [of 50 "clip x 50 100" 100 1] clip_bounds [of 50 100 x] by simp

lemma py_round_clip_competition:
  "20 \<le> py_round (clip x 20 80) 1 \<and> py_round (clip x 20 80) 1 \<le> 80"
  using py_round_int_bounds [of 20 "clip x 20 80" 80 1] clip_bounds [of 20 80 x] by simp

lemma fallback_bounds:
  "50 \<le> demand (get_fallback_prediction category)
   \<and> demand (get_fallback_prediction category) \<le> 100
   \<and> 20 \<le> competition (get_fallback_prediction category)
   \<and> competition (get_fallback_prediction category) \<le> 80"
  by (simp add: get_fallback_prediction_def fallback_predictions_def)

lemma predict_scaled_bounds:
  assumes "predict_scaled self jitter f = Inr res"
  shows "50 \<le> demand res \<and> demand res \<le> 100 \<and> 20 \<le> competition res \<and> competition res \<le> 80"
  using assms py_round_clip_demand py_round_clip_competition
  by (auto simp add: predict_scaled_def Let_def split: sum.splits option.splits)

section \<open>The predictor\<close>

lemma example_encoders:
  "snd (training_features example_dataset) =
     [''City'' \<mapsto> [''Delhi'', ''Mumbai''], ''Category'' \<mapsto> [''Food'', ''Tech''],
      ''Business'' \<mapsto> [''App'', ''Bakery'', ''Cafe'', ''Diner'']]"
  by (simp add: training_features_def prepare_features_def example_dataset_def encode_column_def
      init_predictor_def Let_def)

lemma predict_trained:
  assumes "demand_model self \<noteq> None" "competition_model self \<noteq> None"
  shows "predict_single_business self jitter city category business investment =
     (let (features, encoders) =
              prepare_features (label_encoders self) (input_data city category business investment);
            self' = self\<lparr>label_encoders := encoders\<rparr>
        in (case predict_scaled self' jitter (hd features) of
              Inr result \<Rightarrow> Inr (result, self')
            | Inl e \<Rightarrow> Inr (get_fallback_prediction category, self')))"
  using assms by (auto simp add: predict_single_business_def)

text \<open>
  Claim C2, as stated, fails: on the predictor that \<open>__init__\<close> leaves, the guard
  of \<open>predict_single_business\<close> raises a \<open>ValueError\<close>; nothing routes to the fallback
  table.
\<close>

theorem predict_untrained_raises:
  "predict_single_business init_predictor 0 ''Mumbai'' ''Food'' ''Cafe'' 100 = Inl ValueError"
  by (simp add: predict_single_business_def init_predictor_def)

text \<open>
  Claim C2, amended. \<open>predict_single_business\<close> raises (a \<open>ValueError\<close>) exactly when
  one of the two models is missing. With both models present it returns a result for every
  city, category, business name and investment, seen before or not, with the demand in
  \<open>[50, 100]\<close> and the competition in \<open>[20, 80]\<close>. The engine catches the error of a
  predictor without models and answers with its basic prediction.
\<close>

theorem predict_raises_only_untrained:
  "(demand_model self = None \<or> competition_model self = None \<longrightarrow>
      predict_single_business self jitter city category business investment = Inl ValueError)
   \<and> (demand_model self \<noteq> None \<and> competition_model self \<noteq> None \<longrightarrow>
        (\<exists>res self'.
           predict_single_business self jitter city category business investment = Inr (res, self')
           \<and> 50 \<le> demand res \<and> demand res \<le> 100
           \<and> 20 \<le> competition res \<and> competition res \<le> 80))
   \<and> (ml_predictor eng = Some self \<and> (demand_model self = None \<or> competition_model self = None) \<longrightarrow>
        predict_new_business_opportunity eng h jitter city category business investment
          = (get_basic_prediction eng h city category, eng))"
proof (intro conjI impI)
  assume "demand_model self = None \<or> competition_model self = None"
  then show "predict_single_business self jitter city category business investment = Inl ValueError"
    by (auto simp add: predict_single_business_def)
next
  assume t: "demand_model self \<noteq> None \<and> competition_model self \<noteq> None"
  obtain fs encs where pf:
    "prepare_features (label_encoders self) (input_data city category business investment) = (fs, encs)"
    by (cases "prepare_features (label_encoders self) (input_data city category business investment)")
  let ?self' = "self\<lparr>label_encoders := encs\<rparr>"
  show "\<exists>res self'.
           predict_single_business self jitter city category business investment = Inr (res, self')
           \<and> 50 \<le> demand res \<and> demand res \<le> 100
           \<and> 20 \<le> competition res \<and> competition res \<le> 80"
  proof (cases "predict_scaled ?self' jitter (hd fs)")
    case (Inl e)
    with t pf have "predict_single_business self jitter city category business investment
        = Inr (get_fallback_prediction category, ?self')"
      by (simp add: predict_trained)
    with fallback_bounds [of category] show ?thesis by blast
  next
    case (Inr res)
    with t pf have "predict_single_business self jitter city category business investment
        = Inr (res, ?self')"
      by (simp add: predict_trained)
    with predict_scaled_bounds [OF Inr] show ?thesis by blast
  qed
next
  assume "ml_predictor eng = Some self \<and> (demand_model self = None \<or> competition_model self = None)"
  then show "predict_new_business_opportunity eng h jitter city category business investment
          = (get_basic_prediction eng h city category, eng)"
    by (auto simp add: predict_new_business_opportunity_def predict_single_business_def)
qed

theorem predict_raises_only_untrained_witness:
  "predict_single_business init_predictor 0 ''Pune'' ''Finance'' ''Bank'' 100 = Inl ValueError
   \<and> (\<exists>res self'.
         predict_single_business example_predictor 0 ''Pune'' ''Finance'' ''Bank'' 100 = Inr (res, self')
         \<and> 50 \<le> demand res \<and> demand res \<le> 100
         \<and> 20 \<le> competition res \<and> competition res \<le> 80)
   \<and> predict_new_business_opportunity
        \<lparr>df = 0, use_ml = True, ml_predictor = Some init_predictor\<rparr>
        [\<lparr>rows = example_dataset, score_col = None, explanation_col = None\<rparr>]
        0 ''Pune'' ''Finance'' ''Bank'' 100
      = (get_basic_prediction \<lparr>df = 0, use_ml = True, ml_predictor = Some init_predictor\<rparr>
           [\<lparr>rows = example_dataset, score_col = None, explanation_col = None\<rparr>] ''Pune'' ''Finance'',
         \<lparr>df = 0, use_ml = True, ml_predictor = Some init_predictor\<rparr>)"
  using
    predict_raises_only_untrained
      [of init_predictor 0 "''Pune''" "''Finance''" "''Bank''" 100
          "\<lparr>df = 0, use_ml = True, ml_predictor = Some init_predictor\<rparr>"
          "[\<lparr>rows = example_dataset, score_col = None, explanation_col = None\<rparr>]"]
    predict_raises_only_untrained
      [of example_predictor 0 "''Pune''" "''Finance''" "''Bank''" 100]
  by (simp add: init_predictor_def example_predictor_def)

text \<open>
  Claim C6, as stated, fails: the models return \<open>60.06\<close> and \<open>30.04\<close>, the result has
  demand \<open>60.1\<close>, competition \<open>30\<close> and market gap \<open>30\<close>, which is not
  \<open>60.1 - 30\<close>.
\<close>

theorem market_gap_not_field_difference:
  "predict_single_business example_predictor 0 ''Mumbai'' ''Food'' ''Cafe'' 100
     = Inr (\<lparr>demand = 60.1, competition = 30, confidence = 0.85, market_gap = 30,
             prediction_quality = ''High'', ml_interpretation = None, ml_recommendation = None\<rparr>,
            example_predictor)
   \<and> (30 :: real) \<noteq> 60.1 - 30"
  by (simp add: predict_single_business_def predict_scaled_def scaler_transform_def feature_values_def 
     example_predictor_def example_encoders prepare_features_def input_data_def
      encode_column_def group_of_def mean_def std_fillna_def log1p_fillna_def Let_def clip_def
      calculate_confidence_def py_round_def round_half_even_def)

text \<open>
  Claim C6, amended. When the scaler and both models succeed, with raw outputs \<open>d\<close> and
  \<open>c\<close>, the result has the demand \<open>d\<close> clipped to \<open>[50, 100]\<close> and the competition
  \<open>c\<close> clipped to \<open>[20, 80]\<close>, each rounded to one decimal place and still in its
  band. Its market gap is the difference of the two clipped values, rounded to one decimal
  place and not renormalized; it is taken before the two fields are rounded, and is within
  \<open>0.1\<close> of the difference of the two fields.
\<close>

theorem trained_path_result:
  assumes "demand_model self = Some dm" "competition_model self = Some cm"
    and "scaler_transform self
           (hd (fst (prepare_features (label_encoders self)
                       (input_data city category business investment)))) = Inr xs"
    and "dm xs = Inr d" "cm xs = Inr c"
  shows "\<exists>res self'.
           predict_single_business self jitter city category business investment = Inr (res, self')
           \<and> demand res = py_round (clip d 50 100) 1
           \<and> 50 \<le> demand res \<and> demand res \<le> 100
           \<and> competition res = py_round (clip c 20 80) 1
           \<and> 20 \<le> competition res \<and> competition res \<le> 80
           \<and> market_gap res = py_round (clip d 50 100 - clip c 20 80) 1
           \<and> \<bar>market_gap res - (demand res - competition res)\<bar> \<le> 1 / 10"
proof -
  obtain fs encs where pf:
    "prepare_features (label_encoders self) (input_data city category business investment) = (fs, encs)"
    by (cases "prepare_features (label_encoders self) (input_data city category business investment)")
  let ?self' = "self\<lparr>label_encoders := encs\<rparr>"
  let ?res = "\<lparr>demand = py_round (clip d 50 100) 1,
               competition = py_round (clip c 20 80) 1,
               confidence = py_round (calculate_confidence xs jitter) 2,
               market_gap = py_round (clip d 50 100 - clip c 20 80) 1,
               prediction_quality =
                 (if calculate_confidence xs jitter > 0.8 then ''High''
                  else if calculate_confidence xs jitter > 0.6 then ''Medium'' else ''Low''),
               ml_interpretation = None, ml_recommendation = None\<rparr>"
  from assms(3) pf have "scaler_transform ?self' (hd fs) = Inr xs"
    by (simp add: scaler_transform_def)
  with assms have "predict_scaled ?self' jitter (hd fs) = Inr ?res"
    by (simp add: predict_scaled_def Let_def)
  with assms(1,2) pf
  have "predict_single_business self jitter city category business investment = Inr (?res, ?self')"
    by (simp add: predict_trained)
  moreover have "50 \<le> demand ?res \<and> demand ?res \<le> 100"
    using py_round_clip_demand [of d] by simp
  moreover have "20 \<le> competition ?res \<and> competition ?res \<le> 80"
    using py_round_clip_competition [of c] by simp
  moreover have "\<bar>market_gap ?res - (demand ?res - competition ?res)\<bar> \<le> 1 / 10"
    using py_round_difference [of "clip d 50 100" "clip c 20 80"] by simp
  ultimately show ?thesis by (intro exI [of _ ?res] exI [of _ ?self']) simp
qed

theorem trained_path_result_witness:
  "\<exists>res self'.
     predict_single_business example_predictor 0 ''Mumbai'' ''Food'' ''Cafe'' 100 = Inr (res, self')
     \<and> demand res = py_round (clip 60.06 50 100) 1
     \<and> 50 \<le> demand res \<and> demand res \<le> 100
     \<and> competition res = py_round (clip 30.04 20 80) 1
     \<and> 20 \<le> competition res \<and> competition res \<le> 80
     \<and> market_gap res = py_round (clip 60.06 50 100 - clip 30.04 20 80) 1
     \<and> \<bar>market_gap res - (demand res - competition res)\<bar> \<le> 1 / 10"
proof -
  have m: "demand_model example_predictor = Some (\<lambda>xs. Inr 60.06)"
    "competition_model example_predictor = Some (\<lambda>xs. Inr 30.04)"
    by (simp_all add: example_predictor_def)
  have s: "scaler_transform example_predictor
           (hd (fst (prepare_features (label_encoders example_predictor)
                       (input_data ''Mumbai'' ''Food'' ''Cafe'' 100))))
          = Inr [1, 0, 2, ln 101, 1 / 10000, 100, 0, 1, 0, 0, 100, 0, 0, 0]"
    by (simp add: scaler_transform_def feature_values_def 
     example_predictor_def example_encoders prepare_features_def input_data_def
      encode_column_def group_of_def mean_def std_fillna_def log1p_fillna_def Let_def)
  from trained_path_result [OF m s refl refl, of 0] show ?thesis .
qed

text \<open>
  Claim C7. The fallback prediction has confidence \<open>0.6\<close> and quality \<open>Medium\<close> for
  every category, and its market gap is its demand minus its competition. The table has
  exactly the seven keys Food, Tech, Healthcare, Education, Fitness, Tourism and Retail,
  each answered by its entry, and every other category is answered by demand \<open>70\<close> and
  competition \<open>60\<close>.
\<close>

theorem fallback_prediction_table:
  "confidence (get_fallback_prediction category) = 0.6
   \<and> prediction_quality (get_fallback_prediction category) = ''Medium''
   \<and> market_gap (get_fallback_prediction category)
       = demand (get_fallback_prediction category) - competition (get_fallback_prediction category)
   \<and> map fst fallback_predictions
       = [''Food'', ''Tech'', ''Healthcare'', ''Education'', ''Fitness'', ''Tourism'', ''Retail'']
   \<and> length fallback_predictions = 7
   \<and> (\<forall>k d c. (k, d, c) \<in> set fallback_predictions \<longrightarrow>
         demand (get_fallback_prediction k) = d \<and> competition (get_fallback_prediction k) = c)
   \<and> (category \<notin> fst ` set fallback_predictions \<longrightarrow>
         demand (get_fallback_prediction category) = 70
         \<and> competition (get_fallback_prediction category) = 60)"
  by (auto simp add: get_fallback_prediction_def fallback_predictions_def)

theorem fallback_prediction_table_witness:
  "demand (get_fallback_prediction ''Finance'') = 70
   \<and> competition (get_fallback_prediction ''Finance'') = 60
   \<and> demand (get_fallback_prediction ''Healthcare'') = 85
   \<and> competition (get_fallback_prediction ''Healthcare'') = 45
   \<and> confidence (get_fallback_prediction ''Finance'') = 0.6
   \<and> prediction_quality (get_fallback_prediction ''Healthcare'') = ''Medium''"
  using fallback_prediction_table [of "''Finance''"] fallback_prediction_table [of "''Healthcare''"]
  by (simp add: fallback_predictions_def)

text \<open>
  Claim C8 says that the confidence lies in \<open>[0, 1]\<close> for every jitter. The code caps it
  at \<open>1\<close> only: at the jitter \<open>-0.9\<close> it is \<open>-0.05\<close>.
\<close>

theorem confidence_below_range:
  "calculate_confidence features_scaled (- 0.9) = - 0.05
   \<and> calculate_confidence features_scaled (- 0.9) < 0"
  by (simp add: calculate_confidence_def)

text \<open>
  Claim C1 says that the features built for a query are those built for the same tuple in
  training. On the example dataset the first row is (Mumbai, Food, Cafe, 100). In training
  its city group has three rows, a mean investment of \<open>200\<close> and a mean demand of
  \<open>212 / 3\<close>; for the query (Mumbai, Food, Cafe, 100) on the encoders of that training
  the group is the query's own row: one row, a mean investment of \<open>100\<close>, and the
  placeholder \<open>0\<close> as mean demand and mean competition.
\<close>

theorem inference_features_differ:
  "City_business_count (fst (training_features example_dataset) ! 0) = 3
   \<and> City_business_count
        (hd (fst (prepare_features (snd (training_features example_dataset))
                    (input_data ''Mumbai'' ''Food'' ''Cafe'' 100)))) = 1
   \<and> City_avg_investment (fst (training_features example_dataset) ! 0) = 200
   \<and> City_avg_investment
        (hd (fst (prepare_features (snd (training_features example_dataset))
                    (input_data ''Mumbai'' ''Food'' ''Cafe'' 100)))) = 100
   \<and> City_avg_demand (fst (training_features example_dataset) ! 0) = 212 / 3
   \<and> City_avg_demand
        (hd (fst (prepare_features (snd (training_features example_dataset))
                    (input_data ''Mumbai'' ''Food'' ''Cafe'' 100)))) = 0
   \<and> Category_avg_competition (fst (training_features example_dataset) ! 0) = 121 / 3
   \<and> Category_avg_competition
        (hd (fst (prepare_features (snd (training_features example_dataset))
                    (input_data ''Mumbai'' ''Food'' ''Cafe'' 100)))) = 0
   \<and> fst (training_features example_dataset) ! 0
       \<noteq> hd (fst (prepare_features (snd (training_features example_dataset))
                    (input_data ''Mumbai'' ''Food'' ''Cafe'' 100)))"
proof -
  have t: "fst (training_features example_dataset) ! 0 =
     \<lparr>City_encoded = 1, Category_encoded = 0, Business_encoded = 2,
      Investment_log = Some (ln 101), Investment_scaled = 1 / 10000,
      City_avg_investment = 200, City_investment_std = sqrt 10000, City_business_count = 3,
      City_avg_demand = 212 / 3, City_avg_competition = 121 / 3,
      Category_avg_investment = 200, Category_investment_std = sqrt 10000,
      Category_avg_demand = 212 / 3, Category_avg_competition = 121 / 3\<rparr>"
    by (simp add: training_features_def init_predictor_def prepare_features_def example_dataset_def
        encode_column_def group_of_def mean_def std_fillna_def log1p_fillna_def Let_def)
  have i: "fst (prepare_features (snd (training_features example_dataset))
                    (input_data ''Mumbai'' ''Food'' ''Cafe'' 100)) =
     [\<lparr>City_encoded = 1, Category_encoded = 0, Business_encoded = 2,
       Investment_log = Some (ln 101), Investment_scaled = 1 / 10000,
       City_avg_investment = 100, City_investment_std = 0, City_business_count = 1,
       City_avg_demand = 0, City_avg_competition = 0,
       Category_avg_investment = 100, Category_investment_std = 0,
       Category_avg_demand = 0, Category_avg_competition = 0\<rparr>]"
    by (simp add: example_encoders prepare_features_def input_data_def
        encode_column_def group_of_def mean_def std_fillna_def log1p_fillna_def Let_def)
  show ?thesis unfolding t i by simp
qed

section \<open>The engine\<close>

lemma map_nth_filter_indices:
  "map (\<lambda>i. xs ! i) (filter (\<lambda>i. p (xs ! i)) [0..<length xs]) = filter p xs"
proof -
  have "filter p xs = filter p (map (\<lambda>i. xs ! i) [0..<length xs])"
    by (simp add: map_nth)
  also have "\<dots> = map (\<lambda>i. xs ! i) (filter (\<lambda>i. p (xs ! i)) [0..<length xs])"
    by (simp add: filter_map o_def)
  finally show ?thesis by simp
qed

lemma rows_select_rows: "rows (select_rows p f) = filter p (rows f)"
  by (simp add: select_rows_def take_rows_def map_nth_filter_indices)

lemma set_score_new: "set_score (h @ [f]) (length h) col = h @ [f\<lparr>score_col := Some col\<rparr>]"
  by (simp add: set_score_def)

lemma set_explanation_new:
  "set_explanation (h @ [f]) (length h) col = h @ [f\<lparr>explanation_col := Some col\<rparr>]"
  by (simp add: set_explanation_def)

lemma get_recommendations_unfold:
  "get_recommendations self h city budget interests top_n =
     (let f0 = select_rows (\<lambda>r. City r = city) (h ! df self)
      in if rows f0 = [] then (Inr [], h @ [f0])
         else (case nlargest top_n (scored_frame f0 budget interests) of
                 Inl e \<Rightarrow> (Inl e, h @ [scored_frame f0 budget interests])
               | Inr top_businesses \<Rightarrow>
                   (recommendations_of_frame budget interests top_businesses,
                    h @ [scored_frame f0 budget interests])))"
  by (simp add: get_recommendations_def new_frame_def set_score_new set_explanation_new
      scored_frame_def Let_def split: sum.splits)

lemma top_indices_in_range: "i \<in> set (top_indices top_n budget interests m) \<Longrightarrow> i < length m"
  by (auto simp add: top_indices_def dest: in_set_takeD)

lemma recommendations_of_scored:
  assumes "\<forall>i \<in> set idx. i < length (rows f)"
  shows "recommendations_of_frame budget interests (take_rows idx (scored_frame f budget interests))
       = Inr (map (\<lambda>i. full_rec budget interests (rows f ! i)) idx)"
  using assms
  by (simp add: recommendations_of_frame_def take_rows_def scored_frame_def full_rec_def
      zip_map_map zip_same_conv_map)

lemma get_recommendations_result:
  "fst (get_recommendations self h city budget interests top_n) =
     Inr (map (\<lambda>i. full_rec budget interests
                      (filter (\<lambda>r. City r = city) (rows (h ! df self)) ! i))
            (top_indices top_n budget interests
               (filter (\<lambda>r. City r = city) (rows (h ! df self)))))"
proof -
  let ?f0 = "select_rows (\<lambda>r. City r = city) (h ! df self)"
  let ?m = "filter (\<lambda>r. City r = city) (rows (h ! df self))"
  have m: "rows ?f0 = ?m" by (rule rows_select_rows)
  show ?thesis
  proof (cases "?m = []")
    case True
    with m show ?thesis by (simp add: get_recommendations_unfold top_indices_def)
  next
    case False
    have nl: "nlargest top_n (scored_frame ?f0 budget interests)
        = Inr (take_rows (top_indices top_n budget interests ?m) (scored_frame ?f0 budget interests))"
      by (simp add: nlargest_def scored_frame_def top_indices_def m)
    have "\<forall>i \<in> set (top_indices top_n budget interests ?m). i < length (rows ?f0)"
      using top_indices_in_range by (simp add: m)
    from recommendations_of_scored [OF this] False m nl show ?thesis
      by (simp add: get_recommendations_unfold)
  qed
qed

lemma get_recommendations_heap:
  "\<exists>f. snd (get_recommendations self h city budget interests top_n) = h @ [f]"
  by (simp add: get_recommendations_unfold Let_def split: sum.splits)

lemma top_indices_length:
  "length (top_indices top_n budget interests m) = min (nat top_n) (length m)"
  by (simp add: top_indices_def min.commute)

lemma top_indices_sorted:
  "sorted_wrt (\<lambda>i j. calculate_total_score (m ! j) budget interests
                      \<le> calculate_total_score (m ! i) budget interests)
     (top_indices top_n budget interests m)"
proof -
  let ?sc = "map (\<lambda>r. calculate_total_score r budget interests) m"
  let ?idx = "top_indices top_n budget interests m"
  have "sorted (map (\<lambda>i. - (?sc ! i)) (sort_key (\<lambda>i. - (?sc ! i)) [0..<length m]))"
    by (rule sorted_sort_key)
  then have "sorted (take (nat top_n) (map (\<lambda>i. - (?sc ! i)) (sort_key (\<lambda>i. - (?sc ! i)) [0..<length m])))"
    by (rule sorted_wrt_take)
  then have "sorted (map (\<lambda>i. - (?sc ! i)) ?idx)"
    by (simp add: top_indices_def take_map)
  then have "sorted_wrt (\<lambda>i j. - (?sc ! i) \<le> - (?sc ! j)) ?idx"
    by (simp add: sorted_wrt_map)
  then show ?thesis
  proof (rule sorted_wrt_mono_rel [rotated])
    fix i j
    assume "i \<in> set ?idx" "j \<in> set ?idx" "- (?sc ! i) \<le> - (?sc ! j)"
    then show "calculate_total_score (m ! j) budget interests
                      \<le> calculate_total_score (m ! i) budget interests"
      using top_indices_in_range by simp
  qed
qed

lemma top_indices_all:
  assumes "int (length m) \<le> top_n"
  shows "mset (top_indices top_n budget interests m) = mset [0..<length m]"
  using assms by (simp add: top_indices_def)

lemma rec_score_full_rec:
  "rec_score (full_rec budget interests r) = calculate_total_score r budget interests"
  by (simp add: full_rec_def recommendation_of_def)

text \<open>
  Claim C3. \<open>get_recommendations\<close> never raises. Its result has
  \<open>min(top_n, number of rows of the city)\<close> entries (none for a count below zero, and
  none for a city without rows), in descending order of their score; every entry is the
  dictionary of a row of the city with that row's total score; and a count of at least the
  number of rows returns every row of the city once.
\<close>

theorem recommendations_sorted_and_bounded:
  "\<exists>recs.
     fst (get_recommendations self h city budget interests top_n) = Inr recs
     \<and> length recs = min (nat top_n) (length (filter (\<lambda>r. City r = city) (rows (h ! df self))))
     \<and> (0 \<le> top_n \<longrightarrow>
          int (length recs)
            = min top_n (int (length (filter (\<lambda>r. City r = city) (rows (h ! df self))))))
     \<and> (filter (\<lambda>r. City r = city) (rows (h ! df self)) = [] \<longrightarrow> recs = [])
     \<and> sorted_wrt (\<lambda>a b. rec_score b \<le> rec_score a) recs
     \<and> set recs \<subseteq>
          (\<lambda>r. recommendation_of budget interests r (calculate_total_score r budget interests)
                 (get_score_explanation r budget interests))
            ` set (filter (\<lambda>r. City r = city) (rows (h ! df self)))
     \<and> (int (length (filter (\<lambda>r. City r = city) (rows (h ! df self)))) \<le> top_n \<longrightarrow>
          mset recs =
            mset (map (\<lambda>r. recommendation_of budget interests r
                              (calculate_total_score r budget interests)
                              (get_score_explanation r budget interests))
                    (filter (\<lambda>r. City r = city) (rows (h ! df self)))))"
proof -
  let ?m = "filter (\<lambda>r. City r = city) (rows (h ! df self))"
  let ?idx = "top_indices top_n budget interests ?m"
  let ?recs = "map (\<lambda>i. full_rec budget interests (?m ! i)) ?idx"
  have full: "(\<lambda>r. recommendation_of budget interests r (calculate_total_score r budget interests)
                 (get_score_explanation r budget interests)) = full_rec budget interests"
    by (simp add: full_rec_def fun_eq_iff)
  have res: "fst (get_recommendations self h city budget interests top_n) = Inr ?recs"
    by (rule get_recommendations_result)
  have len: "length ?recs = min (nat top_n) (length ?m)"
    by (simp add: top_indices_length)
  have len_int: "0 \<le> top_n \<longrightarrow> int (length ?recs) = min top_n (int (length ?m))"
    by (auto simp add: top_indices_length)
  have empty: "?m = [] \<longrightarrow> ?recs = []"
    by (simp add: top_indices_def)
  have sorted: "sorted_wrt (\<lambda>a b. rec_score b \<le> rec_score a) ?recs"
    using top_indices_sorted [of ?m budget interests top_n]
    by (simp add: sorted_wrt_map rec_score_full_rec)
  have sub: "set ?recs \<subseteq> full_rec budget interests ` set ?m"
  proof
    fix x
    assume "x \<in> set ?recs"
    then obtain i where i: "i \<in> set ?idx" "x = full_rec budget interests (?m ! i)" by auto
    from i(1) have "i < length ?m" by (rule top_indices_in_range)
    then have "?m ! i \<in> set ?m" by (rule nth_mem)
    with i(2) show "x \<in> full_rec budget interests ` set ?m" by (rule image_eqI)
  qed
  have all: "int (length ?m) \<le> top_n \<longrightarrow> mset ?recs = mset (map (full_rec budget interests) ?m)"
  proof
    assume "int (length ?m) \<le> top_n"
    then have "mset ?idx = mset [0..<length ?m]" by (rule top_indices_all)
    then have "mset ?recs = mset (map (\<lambda>i. full_rec budget interests (?m ! i)) [0..<length ?m])"
      by (metis mset_map)
    also have "map (\<lambda>i. full_rec budget interests (?m ! i)) [0..<length ?m]
        = map (full_rec budget interests) (map (\<lambda>i. ?m ! i) [0..<length ?m])"
      by simp
    also have "\<dots> = map (full_rec budget interests) ?m"
      by (simp only: map_nth)
    finally show "mset ?recs = mset (map (full_rec budget interests) ?m)" .
  qed
  from res len len_int empty sorted sub all show ?thesis
    unfolding full by blast
qed

theorem recommendations_sorted_and_bounded_witness:
  "(\<exists>recs. fst (get_recommendations example_engine example_heap ''Mumbai'' 150 [''Food''] 2) = Inr recs
       \<and> length recs = 2 \<and> sorted_wrt (\<lambda>a b. rec_score b \<le> rec_score a) recs)
   \<and> fst (get_recommendations example_engine example_heap ''Pune'' 150 [''Food''] 2) = Inr []
   \<and> (\<exists>recs. fst (get_recommendations example_engine example_heap ''Mumbai'' 150 [''Food''] 5) = Inr recs
       \<and> length recs = 3
       \<and> mset recs =
            mset (map (\<lambda>r. recommendation_of 150 [''Food''] r
                              (calculate_total_score r 150 [''Food''])
                              (get_score_explanation r 150 [''Food'']))
                    (take 3 example_dataset)))"
proof -
  have m: "filter (\<lambda>r. City r = ''Mumbai'') (rows (example_heap ! df example_engine)) = take 3 example_dataset"
    by (simp add: example_heap_def example_engine_def example_dataset_def)
  have p: "filter (\<lambda>r. City r = ''Pune'') (rows (example_heap ! df example_engine)) = []"
    by (simp add: example_heap_def example_engine_def example_dataset_def)
  have l: "length (take 3 example_dataset) = 3" by (simp add: example_dataset_def)
  from recommendations_sorted_and_bounded [of example_engine example_heap "''Mumbai''" 150 "[''Food'']" 2]
    recommendations_sorted_and_bounded [of example_engine example_heap "''Pune''" 150 "[''Food'']" 2]
    recommendations_sorted_and_bounded [of example_engine example_heap "''Mumbai''" 150 "[''Food'']" 5]
  show ?thesis
    unfolding m p l by auto
qed

text \<open>
  Claim C9. With the engine's dataset in the store, a second call of
  \<open>get_recommendations\<close> with the same arguments, on the store that the first call left,
  returns the same list in the same order; and neither call changes the dataset or any
  other frame that was in the store before: the columns are added to the new frame.
\<close>

theorem recommendations_repeatable:
  assumes "df self < length h"
  shows "fst (get_recommendations self (snd (get_recommendations self h city budget interests top_n))
               city budget interests top_n)
           = fst (get_recommendations self h city budget interests top_n)
       \<and> snd (get_recommendations self h city budget interests top_n) ! df self = h ! df self
       \<and> take (length h) (snd (get_recommendations self h city budget interests top_n)) = h
       \<and> take (length h)
           (snd (get_recommendations self (snd (get_recommendations self h city budget interests top_n))
                  city budget interests top_n)) = h"
proof -
  obtain f where h1: "snd (get_recommendations self h city budget interests top_n) = h @ [f]"
    using get_recommendations_heap by blast
  obtain g where h2: "snd (get_recommendations self (h @ [f]) city budget interests top_n) = (h @ [f]) @ [g]"
    using get_recommendations_heap by blast
  from assms have same: "(h @ [f]) ! df self = h ! df self"
    by (simp add: nth_append)
  have "fst (get_recommendations self (h @ [f]) city budget interests top_n)
           = fst (get_recommendations self h city budget interests top_n)"
    by (simp only: get_recommendations_result same)
  with h1 h2 same show ?thesis by simp
qed

theorem recommendations_repeatable_witness:
  "fst (get_recommendations example_engine
          (snd (get_recommendations example_engine example_heap ''Mumbai'' 150 [''Food''] 2))
          ''Mumbai'' 150 [''Food''] 2)
     = fst (get_recommendations example_engine example_heap ''Mumbai'' 150 [''Food''] 2)
   \<and> snd (get_recommendations example_engine example_heap ''Mumbai'' 150 [''Food''] 2) ! 0
     = \<lparr>rows = example_dataset, score_col = None, explanation_col = None\<rparr>"
  using recommendations_repeatable [of example_engine example_heap "''Mumbai''" 150 "[''Food'']" 2]
  by (simp add: example_engine_def example_heap_def)

text \<open>
  Claim C10, as stated, fails: the demand of the basic prediction is not the mean
  \<open>212 / 3\<close> of the matching rows but that mean rounded to one decimal place.
\<close>

theorem basic_prediction_rounds_means:
  "demand (fst (predict_new_business_opportunity example_engine example_heap 0
                  ''Mumbai'' ''Food'' ''Cafe'' 100)) = 70.7
   \<and> mean (map Demand (filter (\<lambda>r. City r = ''Mumbai'' \<and> Category r = ''Food'')
                          (rows (example_heap ! df example_engine)))) = 212 / 3"
  by (simp add: predict_new_business_opportunity_def get_basic_prediction_def example_engine_def
      example_heap_def example_dataset_def mean_def py_round_def round_half_even_def Let_def)

text \<open>
  Claim C10, amended. When the engine does not use a predictor, has none, or its predictor
  raises, \<open>predict_new_business_opportunity\<close> leaves the engine as it is and returns the
  basic prediction: the average demand and competition are the means over the rows of the
  city and category, or over the rows of the category when the city has none of them, or
  \<open>70\<close> and \<open>50\<close> when the category has no row; demand and competition are these
  averages rounded to one decimal place, the market gap is the difference of the averages
  rounded to one decimal place, the confidence is \<open>0.7\<close> and the quality \<open>Basic\<close>.
\<close>

theorem basic_prediction_when_ml_unavailable:
  assumes "\<not> use_ml self \<or> ml_predictor self = None
           \<or> (\<exists>p e. ml_predictor self = Some p
                 \<and> predict_single_business p jitter city category business investment = Inl e)"
  shows "let data = rows (h ! df self);
             city_data = filter (\<lambda>r. City r = city \<and> Category r = category) data;
             category_data = filter (\<lambda>r. Category r = category) data;
             used = (if city_data = [] then category_data else city_data);
             avg_demand = (if used = [] then 70 else mean (map Demand used));
             avg_competition = (if used = [] then 50 else mean (map Competition used))
         in predict_new_business_opportunity self h jitter city category business investment
              = (\<lparr>demand = py_round avg_demand 1,
                  competition = py_round avg_competition 1,
                  confidence = 0.7,
                  market_gap = py_round (avg_demand - avg_competition) 1,
                  prediction_quality = ''Basic'',
                  ml_interpretation = None, ml_recommendation = None\<rparr>, self)"
proof -
  from assms
  have "predict_new_business_opportunity self h jitter city category business investment
      = (get_basic_prediction self h city category, self)"
    by (auto simp add: predict_new_business_opportunity_def split: option.splits sum.splits)
  then show ?thesis
    by (simp add: get_basic_prediction_def Let_def)
qed

theorem basic_prediction_when_ml_unavailable_witness:
  "predict_new_business_opportunity example_engine example_heap 0 ''Mumbai'' ''Food'' ''Cafe'' 100
     = (\<lparr>demand = 70.7, competition = 40.3, confidence = 0.7, market_gap = 30.3,
         prediction_quality = ''Basic'', ml_interpretation = None, ml_recommendation = None\<rparr>,
        example_engine)
   \<and> predict_new_business_opportunity example_engine example_heap 0 ''Pune'' ''Tech'' ''Cafe'' 100
     = (\<lparr>demand = 90, competition = 30, confidence = 0.7, market_gap = 60,
         prediction_quality = ''Basic'', ml_interpretation = None, ml_recommendation = None\<rparr>,
        example_engine)
   \<and> predict_new_business_opportunity (example_engine\<lparr>use_ml := True, ml_predictor := Some init_predictor\<rparr>)
        example_heap 0 ''Pune'' ''Finance'' ''Bank'' 100
     = (\<lparr>demand = 70, competition = 50, confidence = 0.7, market_gap = 20,
         prediction_quality = ''Basic'', ml_interpretation = None, ml_recommendation = None\<rparr>,
        example_engine\<lparr>use_ml := True, ml_predictor := Some init_predictor\<rparr>)"
proof -
  have a: "\<not> use_ml example_engine \<or> ml_predictor example_engine = None
           \<or> (\<exists>p e. ml_predictor example_engine = Some p
                 \<and> predict_single_business p 0 ''Mumbai'' ''Food'' ''Cafe'' 100 = Inl e)"
    by (simp add: example_engine_def)
  have b: "\<not> use_ml example_engine \<or> ml_predictor example_engine = None
           \<or> (\<exists>p e. ml_predictor example_engine = Some p
                 \<and> predict_single_business p 0 ''Pune'' ''Tech'' ''Cafe'' 100 = Inl e)"
    by (simp add: example_engine_def)
  have c: "\<not> use_ml (example_engine\<lparr>use_ml := True, ml_predictor := Some init_predictor\<rparr>)
           \<or> ml_predictor (example_engine\<lparr>use_ml := True, ml_predictor := Some init_predictor\<rparr>) = None
           \<or> (\<exists>p e. ml_predictor (example_engine\<lparr>use_ml := True, ml_predictor := Some init_predictor\<rparr>) = Some p
                 \<and> predict_single_business p 0 ''Pune'' ''Finance'' ''Bank'' 100 = Inl e)"
    by (simp add: example_engine_def predict_single_business_def init_predictor_def)
  from basic_prediction_when_ml_unavailable [OF a, of example_heap]
    basic_prediction_when_ml_unavailable [OF b, of example_heap]
    basic_prediction_when_ml_unavailable [OF c, of example_heap]
  show ?thesis
    by (simp add: example_engine_def example_heap_def example_dataset_def mean_def py_round_def
        round_half_even_def Let_def)
qed

end
